theory Spec2Isabelle
  imports Complex_Main "HOL-Library.Word"
begin

section \<open>Data: bytes, text, exceptions\<close>

text \<open>
  A Python \<open>bytes\<close> object is a list of 8-bit words. A Python \<open>str\<close> is a list of Unicode
  code points (naturals), so that \<open>len\<close>, slicing and \<open>ord\<close> count what Python counts.
  String literals of the source are written as Isabelle strings and converted by \<open>ustr\<close>.
\<close>

type_synonym bytes = "8 word list"
type_synonym pystr = "nat list"

definition ustr :: "string \<Rightarrow> pystr" where
  "ustr s = map of_char s"

text \<open>Every exception below is a subclass of Python's \<open>Exception\<close>.\<close>

datatype exn =
    TypeError
  | AttributeError
  | ImportError
  | DecompressError

text \<open>
  Library functions the module calls but does not define. A failing call is \<open>Inl\<close> of the
  exception; \<open>brotli\<close> is \<open>None\<close> when the optional module cannot be imported.
  \<open>utf8_decode\<close> is \<open>bytes.decode("utf-8")\<close> (\<open>None\<close>: UnicodeDecodeError),
  \<open>utf8_replace\<close> is \<open>bytes.decode("utf-8", errors="replace")\<close>, \<open>str_lower\<close> is
  \<open>str.lower\<close>.
\<close>

record runtime =
  str_lower :: "pystr \<Rightarrow> pystr"
  utf8_decode :: "bytes \<Rightarrow> pystr option"
  utf8_replace :: "bytes \<Rightarrow> pystr"
  gzip_decompress :: "bytes \<Rightarrow> exn + bytes"
  zlib_decompress :: "bytes \<Rightarrow> exn + bytes"
  brotli :: "(bytes \<Rightarrow> exn + bytes) option"

text \<open>\<open>try: body except Exception: handler\<close> and sequencing of fallible steps.\<close>

definition try_except :: "exn + 'a \<Rightarrow> (exn \<Rightarrow> exn + 'a) \<Rightarrow> exn + 'a" where
  "try_except body handler = (case body of Inl e \<Rightarrow> handler e | Inr v \<Rightarrow> Inr v)"

definition and_then :: "exn + 'a \<Rightarrow> ('a \<Rightarrow> exn + 'b) \<Rightarrow> exn + 'b" where
  "and_then m f = (case m of Inl e \<Rightarrow> Inl e | Inr v \<Rightarrow> f v)"

section \<open>Python string primitives\<close>

fun startswith :: "'a list \<Rightarrow> 'a list \<Rightarrow> bool" where
  "startswith s [] = True"
| "startswith [] (p # ps) = False"
| "startswith (c # cs) (p # ps) = (c = p \<and> startswith cs ps)"

text \<open>\<open>sub in s\<close> for strings: \<open>sub\<close> occurs in \<open>s\<close> as a contiguous run.\<close>

fun py_in :: "'a list \<Rightarrow> 'a list \<Rightarrow> bool" where
  "py_in sub [] = (sub = [])"
| "py_in sub (c # cs) = (startswith (c # cs) sub \<or> py_in sub cs)"

text \<open>\<open>str(n)\<close> for a non-negative and for an arbitrary integer.\<close>

function py_str_nat :: "nat \<Rightarrow> pystr" where
  "py_str_nat n = (if n < 10 then [48 + n] else py_str_nat (n div 10) @ [48 + n mod 10])"
  by pat_completeness auto
termination
  by (relation "measure id") auto

declare py_str_nat.simps [simp del]

definition py_str_int :: "int \<Rightarrow> pystr" where
  "py_str_int i = (if i < 0 then 45 # py_str_nat (nat (- i)) else py_str_nat (nat i))"

section \<open>Body codec\<close>

definition MAX_BODY_CAPTURE :: nat where
  "MAX_BODY_CAPTURE = 100 * 1024"

definition TEXTUAL_CONTENT_HINTS :: "pystr list" where
  "TEXTUAL_CONTENT_HINTS = map ustr
     [''text/'', ''application/json'', ''application/xml'', ''application/javascript'',
      ''application/x-www-form-urlencoded'', ''application/graphql'', ''application/x-ndjson'']"

definition BINARY_CONTENT_HINTS :: "pystr list" where
  "BINARY_CONTENT_HINTS = map ustr
     [''application/octet-stream'', ''application/x-protobuf'', ''application/protobuf'',
      ''application/grpc'', ''application/pdf'', ''application/zip'',
      ''image/'', ''audio/'', ''video/'', ''font/'']"

definition truncate_bytes :: "bytes option \<Rightarrow> nat \<Rightarrow> bytes" where
  "truncate_bytes data limit =
     (case data of
        None \<Rightarrow> []
      | Some d \<Rightarrow> if length d \<le> limit then d else take limit d)"

definition safe_decode :: "runtime \<Rightarrow> bytes \<Rightarrow> pystr \<times> bool" where
  "safe_decode rt data =
     (if data = [] then ([], False)
      else case utf8_decode rt data of
             Some text \<Rightarrow> (text, False)
           | None \<Rightarrow> (utf8_replace rt data, True))"

text \<open>
  A header collection: the engine's multi-valued \<open>Headers\<close> (its \<open>items(multi=True)\<close> lists
  every field in order) or a plain mapping, whose \<open>items\<close> takes no \<open>multi\<close> argument
  (TypeError) and is then called without it. \<open>None\<close> has no \<open>items\<close> at all.
\<close>

datatype headers =
    Headers "(pystr \<times> pystr) list"
  | Dict "(pystr \<times> pystr) list"

fun header_fields :: "headers \<Rightarrow> (pystr \<times> pystr) list" where
  "header_fields (Headers xs) = xs"
| "header_fields (Dict xs) = xs"

fun items_multi :: "headers option \<Rightarrow> exn + (pystr \<times> pystr) list" where
  "items_multi None = Inl AttributeError"
| "items_multi (Some (Headers xs)) = Inr xs"
| "items_multi (Some (Dict xs)) = Inl TypeError"

fun items_plain :: "headers option \<Rightarrow> exn + (pystr \<times> pystr) list" where
  "items_plain None = Inl AttributeError"
| "items_plain (Some h) = Inr (header_fields h)"

fun first_match :: "runtime \<Rightarrow> pystr \<Rightarrow> (pystr \<times> pystr) list \<Rightarrow> pystr" where
  "first_match rt target [] = []"
| "first_match rt target ((k, v) # rest) =
     (if str_lower rt k = target then v else first_match rt target rest)"

definition falsy_headers :: "headers option \<Rightarrow> bool" where
  "falsy_headers headers = (case headers of None \<Rightarrow> True | Some h \<Rightarrow> header_fields h = [])"

definition get_header_value :: "runtime \<Rightarrow> headers option \<Rightarrow> pystr \<Rightarrow> exn + pystr" where
  "get_header_value rt headers name =
     (if falsy_headers headers then Inr []
      else
        let target = str_lower rt name in
        and_then
          (try_except (items_multi headers)
             (\<lambda>e. if e = TypeError then items_plain headers else Inl e))
          (\<lambda>items. Inr (first_match rt target items)))"

definition is_control :: "nat \<Rightarrow> bool" where
  "is_control c = (c < 32 \<and> c \<noteq> 10 \<and> c \<noteq> 13 \<and> c \<noteq> 9)"

text \<open>
  The ratio is a quotient of two naturals below 2001 compared with 0.08. Two such quotients
  that differ are at least 1/50000 apart from 2/25, far more than a rounding error of
  double precision, so the comparison of the rounded values is the comparison of the exact
  ones, which is what is written here.
\<close>

definition looks_binary_from_text :: "pystr \<Rightarrow> bool" where
  "looks_binary_from_text text =
     (if text = [] then False
      else
        let sample = take 2000 text;
            control_count = length (filter is_control sample);
            replacement_count = count_list sample 65533;
            ratio = real (control_count + replacement_count) / real (max 1 (length sample))
        in ratio > 8 / 100)"

definition any_hint :: "pystr list \<Rightarrow> pystr \<Rightarrow> bool" where
  "any_hint hints s = list_ex (\<lambda>hint. py_in hint s) hints"

definition undo_content_encoding :: "runtime \<Rightarrow> pystr \<Rightarrow> bytes \<Rightarrow> exn + bytes" where
  "undo_content_encoding rt content_encoding data =
     try_except
       (if py_in (ustr ''gzip'') content_encoding then gzip_decompress rt data
        else if py_in (ustr ''deflate'') content_encoding then zlib_decompress rt data
        else if py_in (ustr ''br'') content_encoding then
          try_except
            (case brotli rt of
               None \<Rightarrow> Inl ImportError
             | Some decompress \<Rightarrow> decompress data)
            (\<lambda>e. Inr data)
        else Inr data)
       (\<lambda>e. Inr data)"

definition placeholder :: "pystr \<Rightarrow> nat \<Rightarrow> pystr" where
  "placeholder kind n =
     ustr ''[binary body omitted: '' @ kind @ ustr ''; '' @ py_str_nat n @ ustr '' bytes]''"

definition decode_for_display :: "runtime \<Rightarrow> bytes \<Rightarrow> headers option \<Rightarrow> exn + pystr" where
  "decode_for_display rt data headers =
     (if data = [] then Inr []
      else
        and_then (get_header_value rt headers (ustr ''content-type'')) (\<lambda>ct.
        and_then (get_header_value rt headers (ustr ''content-encoding'')) (\<lambda>ce.
          let content_type = str_lower rt ct;
              content_encoding = str_lower rt ce;
              lowered_ct = str_lower rt content_type;
              is_likely_binary = any_hint BINARY_CONTENT_HINTS lowered_ct
          in
          and_then (undo_content_encoding rt content_encoding data) (\<lambda>decoded_bytes.
            let (text, had_decode_issue) = safe_decode rt decoded_bytes;
                is_textual = any_hint TEXTUAL_CONTENT_HINTS lowered_ct
            in
            if (is_likely_binary \<and> \<not> is_textual) \<or> (had_decode_issue \<and> \<not> is_textual)
               \<or> looks_binary_from_text text
            then
              let kind = (if content_type = [] then ustr ''binary/unknown'' else content_type)
              in Inr (placeholder kind (length data))
            else Inr text))))"

text \<open>
  The body fields of a FlowRecord as \<open>FlowCollector.response\<close> fills them for one body:
  \<open>content or b""\<close>, its size, the displayable body and the truncation flag.
\<close>

record body_fields =
  body_size :: nat
  body :: "exn + pystr"
  body_truncated :: bool

definition or_empty :: "bytes option \<Rightarrow> bytes" where
  "or_empty content = (case content of None \<Rightarrow> [] | Some b \<Rightarrow> b)"

definition collect_body :: "runtime \<Rightarrow> bytes option \<Rightarrow> headers option \<Rightarrow> body_fields" where
  "collect_body rt content headers =
     (let raw = or_empty content in
      \<lparr> body_size = length raw,
        body = decode_for_display rt (truncate_bytes (Some raw) MAX_BODY_CAPTURE) headers,
        body_truncated = (length raw > MAX_BODY_CAPTURE) \<rparr>)"


section \<open>A concrete runtime for evaluation\<close>

text \<open>
  The theorems below hold for every \<open>runtime\<close>. To evaluate the codec on concrete inputs,
  \<open>sample_runtime\<close> fixes one: a UTF-8 decoder (strict, and with the replacement of every
  maximal ill-formed subsequence by U+FFFD, as CPython does), lower-casing of the ASCII
  letters (what \<open>str.lower\<close> does on ASCII strings), gzip decompression given by its value
  on the two gzip streams used here (the output of \<open>gzip.compress\<close> with \<open>mtime=0\<close> for
  the four bytes ESC [ 0 m and for \<open>b"hello"\<close>) and failing elsewhere, and no brotli module.
\<close>

definition is_cont :: "nat \<Rightarrow> bool" where
  "is_cont b = (128 \<le> b \<and> b < 192)"

definition second_ok :: "nat \<Rightarrow> nat \<Rightarrow> bool" where
  "second_ok b0 b1 =
     (if b0 = 224 then 160 \<le> b1 \<and> b1 < 192
      else if b0 = 237 then 128 \<le> b1 \<and> b1 < 160
      else if b0 = 240 then 144 \<le> b1 \<and> b1 < 192
      else if b0 = 244 then 128 \<le> b1 \<and> b1 < 144
      else is_cont b1)"

definition utf8_two :: "nat \<Rightarrow> nat list \<Rightarrow> nat option \<times> nat" where
  "utf8_two b0 bs =
     (case bs of
        [] \<Rightarrow> (None, 1)
      | b1 # r1 \<Rightarrow>
          if is_cont b1 then (Some ((b0 - 192) * 64 + (b1 - 128)), 2) else (None, 1))"

definition utf8_three :: "nat \<Rightarrow> nat list \<Rightarrow> nat option \<times> nat" where
  "utf8_three b0 bs =
     (case bs of
        [] \<Rightarrow> (None, 1)
      | b1 # r1 \<Rightarrow>
          if \<not> second_ok b0 b1 then (None, 1)
          else
            (case r1 of
               [] \<Rightarrow> (None, 2)
             | b2 # r2 \<Rightarrow>
                 if is_cont b2
                 then (Some (((b0 - 224) * 64 + (b1 - 128)) * 64 + (b2 - 128)), 3)
                 else (None, 2)))"

definition utf8_four :: "nat \<Rightarrow> nat list \<Rightarrow> nat option \<times> nat" where
  "utf8_four b0 bs =
     (case bs of
        [] \<Rightarrow> (None, 1)
      | b1 # r1 \<Rightarrow>
          if \<not> second_ok b0 b1 then (None, 1)
          else
            (case r1 of
               [] \<Rightarrow> (None, 2)
             | b2 # r2 \<Rightarrow>
                 if \<not> is_cont b2 then (None, 2)
                 else
                   (case r2 of
                      [] \<Rightarrow> (None, 3)
                    | b3 # r3 \<Rightarrow>
                        if is_cont b3
                        then (Some ((((b0 - 240) * 64 + (b1 - 128)) * 64 + (b2 - 128)) * 64
                                     + (b3 - 128)), 4)
                        else (None, 3))))"

text \<open>
  One decoding step at lead byte \<open>b0\<close> followed by \<open>bs\<close>: the code point, or \<open>None\<close>
  for an ill-formed sequence, and the number of bytes the step consumes.
\<close>

definition utf8_step :: "nat \<Rightarrow> nat list \<Rightarrow> nat option \<times> nat" where
  "utf8_step b0 bs =
     (if b0 < 128 then (Some b0, 1)
      else if 194 \<le> b0 \<and> b0 < 224 then utf8_two b0 bs
      else if 224 \<le> b0 \<and> b0 < 240 then utf8_three b0 bs
      else if 240 \<le> b0 \<and> b0 < 245 then utf8_four b0 bs
      else (None, 1))"

primrec utf8_run :: "nat list \<Rightarrow> nat \<Rightarrow> nat option list" where
  "utf8_run [] skip = []"
| "utf8_run (b # bs) skip =
     (if skip = 0
      then fst (utf8_step b bs) # utf8_run bs (snd (utf8_step b bs) - 1)
      else utf8_run bs (skip - 1))"

definition utf8_strict :: "bytes \<Rightarrow> pystr option" where
  "utf8_strict data =
     (let rs = utf8_run (map unat data) 0
      in if list_ex (\<lambda>r. r = None) rs then None else Some (map the rs))"

definition utf8_lossy :: "bytes \<Rightarrow> pystr" where
  "utf8_lossy data =
     map (\<lambda>r. case r of None \<Rightarrow> 65533 | Some c \<Rightarrow> c) (utf8_run (map unat data) 0)"

definition ascii_lower :: "pystr \<Rightarrow> pystr" where
  "ascii_lower s = map (\<lambda>c. if 65 \<le> c \<and> c \<le> 90 then c + 32 else c) s"

definition reset_bytes :: bytes where
  "reset_bytes = [27, 91, 48, 109]"

definition gz_reset :: bytes where
  "gz_reset = [31, 139, 8, 0, 0, 0, 0, 0, 2, 3, 147, 142, 54, 200, 5, 0,
               197, 229, 240, 42, 4, 0, 0, 0]"

definition hello_bytes :: bytes where
  "hello_bytes = [104, 101, 108, 108, 111]"

definition gz_hello :: bytes where
  "gz_hello = [31, 139, 8, 0, 0, 0, 0, 0, 2, 3, 203, 72, 205, 201, 201, 7, 0,
               134, 166, 16, 54, 5, 0, 0, 0]"

definition gunzip_table :: "bytes \<Rightarrow> exn + bytes" where
  "gunzip_table data =
     (if data = gz_reset then Inr reset_bytes
      else if data = gz_hello then Inr hello_bytes
      else Inl DecompressError)"

definition sample_runtime :: runtime where
  "sample_runtime =
     \<lparr> str_lower = ascii_lower,
       utf8_decode = utf8_strict,
       utf8_replace = utf8_lossy,
       gzip_decompress = gunzip_table,
       zlib_decompress = (\<lambda>data. Inl DecompressError),
       brotli = None \<rparr>"

definition png_headers :: "headers option" where
  "png_headers = Some (Headers [(ustr ''Content-Type'', ustr ''image/png'')])"

definition gzip_headers :: "headers option" where
  "gzip_headers = Some (Headers [(ustr ''Content-Encoding'', ustr ''gzip'')])"

definition control_bytes :: bytes where
  "control_bytes = [0, 1, 2, 65]"

definition length_headers :: headers where
  "length_headers = Headers [(ustr ''Content-Length'', ustr ''5'')]"

section \<open>Proxy service\<close>

text \<open>
  The events put on the queue: \<open>{"type": "status", "status", "message", "port"}\<close> and
  \<open>{"type": "error", "message"}\<close>.
\<close>

datatype event =
    StatusEvent pystr pystr "int option"
  | ErrorEvent pystr

text \<open>
  The fields of \<open>ProxyService\<close> (the two flags of its \<open>CaptureState\<close> included), followed by
  the engine threads of the process: \<open>alive\<close> lists the threads running \<open>run_proxy\<close>, and
  \<open>spawned\<close> counts the threads created so far and names the next one. A thread object,
  the master and the loop are identified by the number of their thread.
\<close>

record service =
  capture_enabled :: bool
  paused :: bool
  proxy_thread :: "nat option"
  proxy_master :: "nat option"
  proxy_loop :: "nat option"
  current_port :: "int option"
  start_in_progress :: bool
  last_start_error :: pystr
  event_queue :: "event list"
  alive :: "nat list"
  spawned :: nat

definition init_service :: service where
  "init_service =
     \<lparr> capture_enabled = True, paused = False, proxy_thread = None, proxy_master = None,
       proxy_loop = None, current_port = None, start_in_progress = False,
       last_start_error = [], event_queue = [], alive = [], spawned = 0 \<rparr>"

definition should_capture :: "service \<Rightarrow> bool" where
  "should_capture s = (capture_enabled s \<and> \<not> paused s)"

text \<open>\<open>self.proxy_thread and self.proxy_thread.is_alive()\<close>\<close>

definition thread_alive :: "service \<Rightarrow> bool" where
  "thread_alive s = (case proxy_thread s of None \<Rightarrow> False | Some t \<Rightarrow> t \<in> set (alive s))"

definition status :: "pystr \<Rightarrow> pystr \<Rightarrow> int option \<Rightarrow> service \<Rightarrow> service" where
  "status st message port s = s\<lparr>event_queue := event_queue s @ [StatusEvent st message port]\<rparr>"

definition running_message :: "int option \<Rightarrow> pystr" where
  "running_message port =
     (case port of
        None \<Rightarrow> ustr ''Proxy Running''
      | Some p \<Rightarrow>
          if p = 0 then ustr ''Proxy Running''
          else ustr ''Proxy Running on 127.0.0.1:'' @ py_str_int p)"

definition current_status_payload :: "service \<Rightarrow> event" where
  "current_status_payload s =
     (let port = current_port s in
      if thread_alive s then
        (if paused s then StatusEvent (ustr ''paused'') (ustr ''Paused'') port
         else if capture_enabled s
           then StatusEvent (ustr ''running'') (running_message port) port
         else StatusEvent (ustr ''stopped'') (ustr ''Ready'') port)
      else StatusEvent (ustr ''stopped'') (ustr ''Ready'') port)"

definition candidate_ports :: "int \<Rightarrow> int list" where
  "candidate_ports requested_port = requested_port # [requested_port + 1..requested_port + 20]"

subsection \<open>The engine thread\<close>

text \<open>
  What a thread running \<open>run_proxy\<close> can do to the service. \<open>Setup\<close>: it has stored its loop,
  or its loop and its master, in the service. \<open>Dies\<close>: an exception before the \<open>try\<close>
  statement ends the thread, no handler runs. \<open>Leaves exc\<close>: it leaves \<open>run_proxy\<close> through
  the \<open>try\<close> statement; \<open>exc\<close> is \<open>str(exc)\<close> when \<open>master.run()\<close> raised.
\<close>

datatype stage = LoopStored | MasterStored

datatype engine_act =
    Setup stage
  | Dies
  | Leaves "pystr option"

definition run_proxy_setup :: "nat \<Rightarrow> stage \<Rightarrow> service \<Rightarrow> service" where
  "run_proxy_setup t st s =
     (case st of
        LoopStored \<Rightarrow> s\<lparr>proxy_loop := Some t\<rparr>
      | MasterStored \<Rightarrow> s\<lparr>proxy_loop := Some t, proxy_master := Some t\<rparr>)"

text \<open>The \<open>except Exception as exc\<close> clause of \<open>run_proxy\<close>.\<close>

definition run_proxy_except :: "pystr \<Rightarrow> service \<Rightarrow> service" where
  "run_proxy_except msg s =
     (let s1 = s\<lparr>last_start_error := msg\<rparr> in
      if \<not> start_in_progress s1
      then status (ustr ''stopped'') (ustr ''Stopped'') (current_port s1)
             (s1\<lparr>event_queue := event_queue s1 @ [ErrorEvent msg]\<rparr>)
      else s1)"

text \<open>The \<open>finally\<close> clause of \<open>run_proxy\<close>.\<close>

definition run_proxy_finally :: "service \<Rightarrow> service" where
  "run_proxy_finally s = s\<lparr>proxy_master := None, proxy_loop := None, proxy_thread := None\<rparr>"

definition run_proxy_exit :: "nat \<Rightarrow> pystr option \<Rightarrow> service \<Rightarrow> service" where
  "run_proxy_exit t exc s =
     (let s1 = (case exc of None \<Rightarrow> s | Some msg \<Rightarrow> run_proxy_except msg s);
          s2 = run_proxy_finally s1
      in s2\<lparr>alive := removeAll t (alive s2)\<rparr>)"

definition engine_step :: "nat \<Rightarrow> engine_act \<Rightarrow> service \<Rightarrow> service" where
  "engine_step t a s =
     (if t \<notin> set (alive s) then s
      else case a of
             Setup st \<Rightarrow> run_proxy_setup t st s
           | Dies \<Rightarrow> s\<lparr>alive := removeAll t (alive s)\<rparr>
           | Leaves exc \<Rightarrow> run_proxy_exit t exc s)"

text \<open>What thread \<open>t\<close> does while another thread waits (for the port, or in \<open>join\<close>).\<close>

definition engine_window :: "nat \<Rightarrow> engine_act list \<Rightarrow> service \<Rightarrow> service" where
  "engine_window t acts s = fold (engine_step t) acts s"

subsection \<open>Operations\<close>

text \<open>
  \<open>_shutdown_proxy_locked\<close>. Asking the master to shut down changes no field (its exceptions
  are swallowed); \<open>window\<close> is what the joined thread does within the five seconds of
  \<open>join\<close>, after which it may still be alive.
\<close>

definition shutdown_proxy_locked :: "engine_act list \<Rightarrow> service \<Rightarrow> service" where
  "shutdown_proxy_locked window s =
     (let s1 = (case proxy_thread s of
                  None \<Rightarrow> s
                | Some t \<Rightarrow> if t \<in> set (alive s) then engine_window t window s else s)
      in s1\<lparr>proxy_master := None, proxy_loop := None, proxy_thread := None\<rparr>)"

text \<open>
  What one candidate port meets: \<open>InUse\<close> when \<open>_port_in_use\<close> is true; otherwise a thread is
  launched, \<open>Launch window reachable join\<close> giving what the thread does while
  \<open>_wait_for_port\<close> polls, the result of \<open>_wait_for_port\<close>, and what the thread does when it
  is joined after a failed attempt.
\<close>

datatype attempt =
    InUse
  | Launch "engine_act list" bool "engine_act list"

record start_env =
  restart_join :: "engine_act list"
  probe :: "int \<Rightarrow> attempt"

text \<open>
  The \<open>for candidate\<close> loop of \<open>start\<close>. The result is \<open>started\<close>, or the AttributeError of
  \<open>self.proxy_thread.is_alive()\<close> when the thread has already cleared \<open>self.proxy_thread\<close>.
\<close>

fun try_candidates :: "(int \<Rightarrow> attempt) \<Rightarrow> int list \<Rightarrow> service \<Rightarrow> (exn + bool) \<times> service" where
  "try_candidates pr [] s = (Inr False, s)"
| "try_candidates pr (candidate # rest) s =
     (case pr candidate of
        InUse \<Rightarrow> try_candidates pr rest s
      | Launch window reachable join \<Rightarrow>
          let t = spawned s;
              s1 = s\<lparr>current_port := Some candidate, proxy_thread := Some t,
                     alive := alive s @ [t], spawned := Suc t\<rparr>;
              s2 = engine_window t window s1
          in
          if \<not> reachable then try_candidates pr rest (shutdown_proxy_locked join s2)
          else
            (case proxy_thread s2 of
               None \<Rightarrow> (Inl AttributeError, s2)
             | Some h \<Rightarrow>
                 if h \<in> set (alive s2)
                 then (Inr True,
                       status (ustr ''running'') (running_message (Some candidate))
                         (Some candidate) s2)
                 else try_candidates pr rest (shutdown_proxy_locked join s2)))"

definition failed_start :: "int \<Rightarrow> service \<Rightarrow> service" where
  "failed_start port s =
     (let s1 = s\<lparr>current_port := None\<rparr>;
          s2 = status (ustr ''stopped'')
                 (ustr ''Failed to start proxy near 127.0.0.1:'' @ py_str_int port) (Some port) s1;
          detail = (if last_start_error s2 = [] then ustr ''Port may be busy or blocked.''
                    else last_start_error s2)
      in s2\<lparr>event_queue := event_queue s2 @
                [ErrorEvent (ustr ''Proxy failed to start near 127.0.0.1:'' @ py_str_int port
                             @ ustr ''. '' @ detail)]\<rparr>)"

text \<open>The state in which \<open>start\<close> enters its loop, when it does not resume in place.\<close>

definition begin_start :: "start_env \<Rightarrow> service \<Rightarrow> service" where
  "begin_start env s =
     (let s0 = (if thread_alive s then shutdown_proxy_locked (restart_join env) s else s)
      in s0\<lparr>capture_enabled := True, paused := False, start_in_progress := True,
             last_start_error := []\<rparr>)"

definition start :: "int \<Rightarrow> start_env \<Rightarrow> service \<Rightarrow> exn option \<times> service" where
  "start port env s =
     (let previous_port = current_port s in
      if thread_alive s \<and> previous_port = Some port
      then (None, status (ustr ''running'') (running_message (Some port)) (Some port)
                    (s\<lparr>capture_enabled := True, paused := False\<rparr>))
      else
        case try_candidates (probe env) (candidate_ports port) (begin_start env s) of
          (Inl e, s2) \<Rightarrow> (Some e, s2)
        | (Inr started, s2) \<Rightarrow>
            let s3 = s2\<lparr>start_in_progress := False\<rparr>
            in if started then (None, s3) else (None, failed_start port s3))"

definition stop :: "engine_act list \<Rightarrow> service \<Rightarrow> service" where
  "stop window s =
     (let s1 = s\<lparr>capture_enabled := False, paused := False\<rparr>;
          s2 = shutdown_proxy_locked window s1;
          s3 = status (ustr ''stopped'') (ustr ''Stopped'') (current_port s2) s2
      in s3\<lparr>current_port := None\<rparr>)"

definition pause :: "service \<Rightarrow> service" where
  "pause s =
     (if \<not> thread_alive s then s
      else status (ustr ''paused'') (ustr ''Paused'') (current_port s) (s\<lparr>paused := True\<rparr>))"

definition resume :: "service \<Rightarrow> service" where
  "resume s =
     (if \<not> thread_alive s then s
      else status (ustr ''running'') (running_message (current_port s)) (current_port s)
             (s\<lparr>paused := False\<rparr>))"

text \<open>
  A serialized history: the four operations, each with what its environment does, and the
  steps of the engine threads between them.
\<close>

datatype operation =
    Start int start_env
  | Stop "engine_act list"
  | Pause
  | Resume
  | Engine nat engine_act

fun apply_operation :: "operation \<Rightarrow> service \<Rightarrow> service" where
  "apply_operation (Start port env) s = snd (start port env s)"
| "apply_operation (Stop window) s = stop window s"
| "apply_operation Pause s = pause s"
| "apply_operation Resume s = resume s"
| "apply_operation (Engine t a) s = engine_step t a s"

definition run :: "operation list \<Rightarrow> service \<Rightarrow> service" where
  "run ops s = fold apply_operation ops s"

section \<open>Truncation\<close>

lemma truncate_bytes_length:
  "length (truncate_bytes (Some d) limit) = min (length d) limit"
  by (simp add: truncate_bytes_def)

lemma truncate_bytes_take:
  "truncate_bytes (Some d) limit = take limit d"
  by (simp add: truncate_bytes_def)

text \<open>
  C2. The bytes handed to the decoder are never longer than the 100 KiB cap (102400), they
  are the leading bytes of the body, and the record's truncated flag is true exactly when
  the original body is longer than the cap, which is exactly when bytes were cut off.
\<close>

theorem truncation_bounded_and_flagged:
  "length (truncate_bytes (Some (or_empty content)) MAX_BODY_CAPTURE) \<le> MAX_BODY_CAPTURE
   \<and> MAX_BODY_CAPTURE = 102400
   \<and> truncate_bytes (Some (or_empty content)) MAX_BODY_CAPTURE
       = take MAX_BODY_CAPTURE (or_empty content)
   \<and> body_truncated (collect_body rt content headers)
       = (length (or_empty content) > MAX_BODY_CAPTURE)
   \<and> body_truncated (collect_body rt content headers)
       = (truncate_bytes (Some (or_empty content)) MAX_BODY_CAPTURE \<noteq> or_empty content)
   \<and> body (collect_body rt content headers)
       = decode_for_display rt (truncate_bytes (Some (or_empty content)) MAX_BODY_CAPTURE) headers"
  by (auto simp: truncate_bytes_def collect_body_def MAX_BODY_CAPTURE_def Let_def)

lemmas utf8_defs = utf8_strict_def utf8_lossy_def utf8_step_def utf8_two_def utf8_three_def
  utf8_four_def is_cont_def second_ok_def

lemma startswith_iff: "startswith s p \<longleftrightarrow> (\<exists>ss. s = p @ ss)"
  by (induction s p rule: startswith.induct) auto

lemma py_in_iff: "py_in sub s \<longleftrightarrow> (\<exists>ps ss. s = ps @ sub @ ss)"
proof (induction s)
  case Nil
  then show ?case by auto
next
  case (Cons c cs)
  show ?case
  proof
    assume "py_in sub (c # cs)"
    then consider "startswith (c # cs) sub" | "py_in sub cs" by auto
    then show "\<exists>ps ss. c # cs = ps @ sub @ ss"
    proof cases
      case 1
      then obtain ss where "c # cs = sub @ ss" using startswith_iff by blast
      then have "c # cs = [] @ sub @ ss" by simp
      then show ?thesis by blast
    next
      case 2
      then obtain ps ss where "cs = ps @ sub @ ss" using Cons.IH by blast
      then have "c # cs = (c # ps) @ sub @ ss" by simp
      then show ?thesis by blast
    qed
  next
    assume "\<exists>ps ss. c # cs = ps @ sub @ ss"
    then obtain ps ss where eq: "c # cs = ps @ sub @ ss" by blast
    show "py_in sub (c # cs)"
    proof (cases ps)
      case Nil
      with eq have "startswith (c # cs) sub" using startswith_iff by fastforce
      then show ?thesis by simp
    next
      case (Cons p ps')
      with eq have "cs = ps' @ sub @ ss" by simp
      then have "py_in sub cs" using Cons.IH by blast
      then show ?thesis by simp
    qed
  qed
qed

lemma py_in_middle: "py_in sub (ps @ sub @ ss)"
  using py_in_iff by blast

lemma first_match_no_name:
  "\<forall>(k, v) \<in> set xs. str_lower rt k \<noteq> target \<Longrightarrow> first_match rt target xs = []"
  by (induction xs) auto

lemma get_header_value_None: "get_header_value rt None name = Inr []"
  by (simp add: get_header_value_def falsy_headers_def)

lemma get_header_value_Some:
  "get_header_value rt (Some h) name = Inr (first_match rt (str_lower rt name) (header_fields h))"
  by (cases h) (auto simp: get_header_value_def falsy_headers_def and_then_def try_except_def)

lemma get_header_value_returns: "\<exists>v. get_header_value rt headers name = Inr v"
  by (cases headers) (simp_all add: get_header_value_None get_header_value_Some)

lemma undo_content_encoding_returns:
  "\<exists>out. undo_content_encoding rt content_encoding data = Inr out"
  by (auto simp: undo_content_encoding_def try_except_def split: sum.splits option.splits)

lemma decode_for_display_steps:
  assumes "data \<noteq> []"
      and "get_header_value rt headers (ustr ''content-type'') = Inr ct"
      and "get_header_value rt headers (ustr ''content-encoding'') = Inr ce"
      and "undo_content_encoding rt (str_lower rt ce) data = Inr decoded"
      and "safe_decode rt decoded = (text, issue)"
  shows "decode_for_display rt data headers =
           Inr (if (any_hint BINARY_CONTENT_HINTS (str_lower rt (str_lower rt ct))
                      \<and> \<not> any_hint TEXTUAL_CONTENT_HINTS (str_lower rt (str_lower rt ct)))
                   \<or> (issue \<and> \<not> any_hint TEXTUAL_CONTENT_HINTS (str_lower rt (str_lower rt ct)))
                   \<or> looks_binary_from_text text
                then placeholder (if str_lower rt ct = [] then ustr ''binary/unknown''
                                  else str_lower rt ct) (length data)
                else text)"
  using assms by (simp add: decode_for_display_def and_then_def Let_def)

lemma decode_for_display_returns: "\<exists>text. decode_for_display rt data headers = Inr text"
proof (cases "data = []")
  case True
  then show ?thesis by (simp add: decode_for_display_def)
next
  case False
  obtain ct where ct: "get_header_value rt headers (ustr ''content-type'') = Inr ct"
    using get_header_value_returns by blast
  obtain ce where ce: "get_header_value rt headers (ustr ''content-encoding'') = Inr ce"
    using get_header_value_returns by blast
  obtain decoded where d: "undo_content_encoding rt (str_lower rt ce) data = Inr decoded"
    using undo_content_encoding_returns by blast
  obtain t issue where s: "safe_decode rt decoded = (t, issue)"
    by (cases "safe_decode rt decoded") auto
  show ?thesis
    using decode_for_display_steps [OF False ct ce d s] by blast
qed

lemma declared_binary_placeholder:
  assumes "data \<noteq> []"
      and ct: "get_header_value rt headers (ustr ''content-type'') = Inr ct"
      and "any_hint BINARY_CONTENT_HINTS (str_lower rt (str_lower rt ct))"
      and "\<not> any_hint TEXTUAL_CONTENT_HINTS (str_lower rt (str_lower rt ct))"
  shows "decode_for_display rt data headers =
           Inr (placeholder (if str_lower rt ct = [] then ustr ''binary/unknown''
                             else str_lower rt ct) (length data))"
proof -
  obtain ce where ce: "get_header_value rt headers (ustr ''content-encoding'') = Inr ce"
    using get_header_value_returns by blast
  obtain decoded where d: "undo_content_encoding rt (str_lower rt ce) data = Inr decoded"
    using undo_content_encoding_returns by blast
  obtain t issue where s: "safe_decode rt decoded = (t, issue)"
    by (cases "safe_decode rt decoded") auto
  show ?thesis
    using decode_for_display_steps [OF assms(1) ct ce d s] assms(3,4) by simp
qed

lemma looks_binary_ratio:
  "looks_binary_from_text text \<longleftrightarrow>
     real (length (filter is_control (take 2000 text)) + count_list (take 2000 text) 65533)
       / real (length (take 2000 text)) > 8 / 100"
proof (cases "text = []")
  case True
  then show ?thesis by (simp add: looks_binary_from_text_def)
next
  case False
  then have "max 1 (length (take 2000 text)) = length (take 2000 text)"
    by (cases "text") auto
  with False show ?thesis by (simp add: looks_binary_from_text_def Let_def)
qed

lemma sample_lower_content_type:
  "str_lower sample_runtime (ustr ''content-type'') = ustr ''content-type''"
  by (simp add: sample_runtime_def ascii_lower_def ustr_def)

lemma sample_lower_content_encoding:
  "str_lower sample_runtime (ustr ''content-encoding'') = ustr ''content-encoding''"
  by (simp add: sample_runtime_def ascii_lower_def ustr_def)

lemma png_content_type:
  "get_header_value sample_runtime png_headers (ustr ''content-type'') = Inr (ustr ''image/png'')"
  unfolding png_headers_def get_header_value_Some sample_lower_content_type
  by (simp add: sample_runtime_def ascii_lower_def ustr_def)

lemma png_lower: "str_lower sample_runtime (ustr ''image/png'') = ustr ''image/png''"
  by (simp add: sample_runtime_def ascii_lower_def ustr_def)

lemma png_is_binary: "any_hint BINARY_CONTENT_HINTS (ustr ''image/png'')"
  by (simp add: ustr_def any_hint_def BINARY_CONTENT_HINTS_def)

lemma png_not_textual: "\<not> any_hint TEXTUAL_CONTENT_HINTS (ustr ''image/png'')"
  by (simp add: ustr_def any_hint_def TEXTUAL_CONTENT_HINTS_def)

lemma gzip_content_encoding:
  "get_header_value sample_runtime gzip_headers (ustr ''content-encoding'') = Inr (ustr ''gzip'')"
  unfolding gzip_headers_def get_header_value_Some sample_lower_content_encoding
  by (simp add: sample_runtime_def ascii_lower_def ustr_def)

lemma gzip_content_type:
  "get_header_value sample_runtime gzip_headers (ustr ''content-type'') = Inr []"
  unfolding gzip_headers_def get_header_value_Some sample_lower_content_type
  by (simp add: sample_runtime_def ascii_lower_def ustr_def)

lemma gzip_lower: "str_lower sample_runtime (ustr ''gzip'') = ustr ''gzip''"
  by (simp add: sample_runtime_def ascii_lower_def ustr_def)

lemma empty_lower: "str_lower sample_runtime [] = []"
  by (simp add: sample_runtime_def ascii_lower_def)

lemma no_hint_in_empty:
  "\<not> any_hint BINARY_CONTENT_HINTS [] \<and> \<not> any_hint TEXTUAL_CONTENT_HINTS []"
  by (simp add: ustr_def any_hint_def BINARY_CONTENT_HINTS_def TEXTUAL_CONTENT_HINTS_def)

lemma gzip_in_gzip: "py_in (ustr ''gzip'') (ustr ''gzip'')"
  by (simp add: ustr_def)

lemma undo_gz_reset:
  "undo_content_encoding sample_runtime (ustr ''gzip'') gz_reset = Inr reset_bytes"
  by (simp add: undo_content_encoding_def gzip_in_gzip try_except_def sample_runtime_def
      gunzip_table_def)

lemma undo_gz_hello:
  "undo_content_encoding sample_runtime (ustr ''gzip'') gz_hello = Inr hello_bytes"
  by (simp add: undo_content_encoding_def gzip_in_gzip try_except_def sample_runtime_def
      gunzip_table_def gz_hello_def gz_reset_def)

lemma decode_reset: "safe_decode sample_runtime reset_bytes = ([27, 91, 48, 109], False)"
  by (simp add: safe_decode_def sample_runtime_def reset_bytes_def utf8_defs)

lemma decode_hello: "safe_decode sample_runtime hello_bytes = (ustr ''hello'', False)"
  by (simp add: safe_decode_def sample_runtime_def hello_bytes_def utf8_defs ustr_def)

lemma reset_looks_binary: "looks_binary_from_text [27, 91, 48, 109]"
  by (simp add: looks_binary_from_text_def is_control_def)

lemma hello_not_binary: "\<not> looks_binary_from_text (ustr ''hello'')"
  by (simp add: looks_binary_from_text_def is_control_def ustr_def)

lemma str_24: "py_str_nat 24 = ustr ''24''"
  by (simp add: py_str_nat.simps ustr_def)

lemma str_102400: "py_str_nat 102400 = ustr ''102400''"
  by (simp add: py_str_nat.simps ustr_def)

lemma str_102401: "py_str_nat 102401 = ustr ''102401''"
  by (simp add: py_str_nat.simps ustr_def)

lemma gz_reset_display:
  "decode_for_display sample_runtime gz_reset gzip_headers
     = Inr (ustr ''[binary body omitted: binary/unknown; 24 bytes]'')"
proof -
  have ne: "gz_reset \<noteq> []" by (simp add: gz_reset_def)
  have u: "undo_content_encoding sample_runtime (str_lower sample_runtime (ustr ''gzip'')) gz_reset
             = Inr reset_bytes"
    by (simp add: gzip_lower undo_gz_reset)
  have len: "length gz_reset = 24" by (simp add: gz_reset_def)
  show ?thesis
    using decode_for_display_steps [OF ne gzip_content_type gzip_content_encoding u decode_reset]
    by (simp add: empty_lower reset_looks_binary placeholder_def len str_24 ustr_def)
qed

lemma gz_hello_display:
  "decode_for_display sample_runtime gz_hello gzip_headers = Inr (ustr ''hello'')"
proof -
  have ne: "gz_hello \<noteq> []" by (simp add: gz_hello_def)
  have u: "undo_content_encoding sample_runtime (str_lower sample_runtime (ustr ''gzip'')) gz_hello
             = Inr hello_bytes"
    by (simp add: gzip_lower undo_gz_hello)
  show ?thesis
    using decode_for_display_steps [OF ne gzip_content_type gzip_content_encoding u decode_hello]
    by (simp add: empty_lower hello_not_binary no_hint_in_empty)
qed

text \<open>
  C1 (amended). For every non-empty raw body whose declared content-type matches some entry
  of the binary hint list and no entry of the textual hint list, truncation followed by
  \<open>decode_for_display\<close> returns the placeholder whose byte count is the length of the
  truncated body, the minimum of the original length and the cap; the placeholder contains
  that count, and the count is the original length whenever the body is within the cap.
  (An empty body is shown as the empty string, see \<open>empty_body_display\<close>.)
\<close>

theorem declared_binary_body_placeholder:
  assumes "get_header_value rt headers (ustr ''content-type'') = Inr ct"
      and "any_hint BINARY_CONTENT_HINTS (str_lower rt (str_lower rt ct))"
      and "\<not> any_hint TEXTUAL_CONTENT_HINTS (str_lower rt (str_lower rt ct))"
      and "raw \<noteq> []"
  shows "body (collect_body rt (Some raw) headers)
           = Inr (placeholder (if str_lower rt ct = [] then ustr ''binary/unknown''
                               else str_lower rt ct)
                    (min (length raw) MAX_BODY_CAPTURE))
         \<and> py_in (py_str_nat (min (length raw) MAX_BODY_CAPTURE))
              (placeholder (if str_lower rt ct = [] then ustr ''binary/unknown''
                            else str_lower rt ct)
                 (min (length raw) MAX_BODY_CAPTURE))
         \<and> (length raw \<le> MAX_BODY_CAPTURE
              \<longrightarrow> min (length raw) MAX_BODY_CAPTURE = length raw)"
proof -
  let ?cut = "truncate_bytes (Some raw) MAX_BODY_CAPTURE"
  have ne: "?cut \<noteq> []"
    using assms(4) by (cases raw) (auto simp: truncate_bytes_def MAX_BODY_CAPTURE_def)
  have len: "length ?cut = min (length raw) MAX_BODY_CAPTURE"
    by (rule truncate_bytes_length)
  have "decode_for_display rt ?cut headers
          = Inr (placeholder (if str_lower rt ct = [] then ustr ''binary/unknown''
                              else str_lower rt ct) (length ?cut))"
    by (rule declared_binary_placeholder [OF ne assms(1) assms(2) assms(3)])
  then have "body (collect_body rt (Some raw) headers)
               = Inr (placeholder (if str_lower rt ct = [] then ustr ''binary/unknown''
                                   else str_lower rt ct)
                        (min (length raw) MAX_BODY_CAPTURE))"
    by (simp add: collect_body_def or_empty_def len)
  moreover have "py_in (py_str_nat n) (placeholder k n)" for k n
    unfolding placeholder_def
    using py_in_middle [of "py_str_nat n" "ustr ''[binary body omitted: '' @ k @ ustr ''; ''"
        "ustr '' bytes]''"]
    by simp
  ultimately show ?thesis by simp
qed

lemma png_declared_binary:
  "any_hint BINARY_CONTENT_HINTS
     (str_lower sample_runtime (str_lower sample_runtime (ustr ''image/png'')))"
  by (simp add: png_lower png_is_binary)

lemma png_declared_not_textual:
  "\<not> any_hint TEXTUAL_CONTENT_HINTS
     (str_lower sample_runtime (str_lower sample_runtime (ustr ''image/png'')))"
  by (simp add: png_lower png_not_textual)

lemma png_kind:
  "(if str_lower sample_runtime (ustr ''image/png'') = [] then ustr ''binary/unknown''
    else str_lower sample_runtime (ustr ''image/png'')) = ustr ''image/png''"
  unfolding png_lower by (simp add: ustr_def)

lemma png_placeholder_102400:
  "placeholder (ustr ''image/png'') 102400
     = ustr ''[binary body omitted: image/png; 102400 bytes]''"
  unfolding placeholder_def str_102400 by (simp add: ustr_def)

lemma png_placeholder_4:
  "placeholder (ustr ''image/png'') 4 = ustr ''[binary body omitted: image/png; 4 bytes]''"
  unfolding placeholder_def by (simp add: py_str_nat.simps ustr_def)

lemma oversize_png_display:
  "body (collect_body sample_runtime (Some (replicate 102401 0)) png_headers)
     = Inr (ustr ''[binary body omitted: image/png; 102400 bytes]'')"
proof -
  let ?cut = "truncate_bytes (Some (replicate 102401 (0 :: 8 word))) MAX_BODY_CAPTURE"
  have cut: "?cut = replicate 102400 0"
    by (simp add: truncate_bytes_def MAX_BODY_CAPTURE_def)
  have ne: "?cut \<noteq> []" by (simp add: cut)
  have len: "length ?cut = 102400" by (simp add: cut)
  have "decode_for_display sample_runtime ?cut png_headers
          = Inr (placeholder (ustr ''image/png'') 102400)"
    using declared_binary_placeholder
      [OF ne png_content_type png_declared_binary png_declared_not_textual]
    unfolding png_kind len .
  then show ?thesis
    unfolding png_placeholder_102400 by (simp add: collect_body_def or_empty_def)
qed

text \<open>
  C1 as stated fails on a body one byte over the cap: the placeholder reports 102400 bytes,
  and the original count 102401 does not occur in it.
\<close>

theorem oversize_body_count_counterexample:
  "body (collect_body sample_runtime (Some (replicate 102401 0)) png_headers)
     = Inr (ustr ''[binary body omitted: image/png; 102400 bytes]'')
   \<and> \<not> py_in (py_str_nat (length (replicate 102401 (0 :: 8 word))))
          (ustr ''[binary body omitted: image/png; 102400 bytes]'')"
  by (simp add: oversize_png_display str_102401) (simp add: ustr_def)

theorem declared_binary_body_placeholder_witness:
  "body (collect_body sample_runtime (Some [137, 80, 78, 71]) png_headers)
     = Inr (ustr ''[binary body omitted: image/png; 4 bytes]'')
   \<and> py_in (py_str_nat 4) (ustr ''[binary body omitted: image/png; 4 bytes]'')"
proof -
  have ne: "[137, 80, 78, 71 :: 8 word] \<noteq> []" by simp
  have m: "min (length [137, 80, 78, 71 :: 8 word]) MAX_BODY_CAPTURE = 4"
    by (simp add: MAX_BODY_CAPTURE_def)
  show ?thesis
    using declared_binary_body_placeholder
      [OF png_content_type png_declared_binary png_declared_not_textual ne]
    unfolding png_kind m png_placeholder_4 by blast
qed

lemma empty_body_display:
  "body (collect_body rt (Some []) headers) = Inr []
   \<and> body (collect_body rt None headers) = Inr []"
  by (simp add: collect_body_def or_empty_def truncate_bytes_def decode_for_display_def)

text \<open>
  C6. Undoing the content-encoding never raises: with \<open>gzip\<close> in the header value the
  result is the gzip-inflated body, else with \<open>deflate\<close> the zlib-inflated body, else with
  \<open>br\<close> the brotli-decompressed body when the module is available; a failing decompressor
  or a missing module leaves the bytes unchanged, as does any other encoding. The whole of
  \<open>decode_for_display\<close> returns a string for every input.
\<close>

theorem undo_content_encoding_never_raises:
  "(\<exists>out. undo_content_encoding rt ce data = Inr out)
   \<and> (py_in (ustr ''gzip'') ce \<longrightarrow>
        undo_content_encoding rt ce data
          = Inr (case gzip_decompress rt data of Inl e \<Rightarrow> data | Inr d \<Rightarrow> d))
   \<and> (\<not> py_in (ustr ''gzip'') ce \<and> py_in (ustr ''deflate'') ce \<longrightarrow>
        undo_content_encoding rt ce data
          = Inr (case zlib_decompress rt data of Inl e \<Rightarrow> data | Inr d \<Rightarrow> d))
   \<and> (\<not> py_in (ustr ''gzip'') ce \<and> \<not> py_in (ustr ''deflate'') ce \<and> py_in (ustr ''br'') ce \<longrightarrow>
        undo_content_encoding rt ce data
          = Inr (case brotli rt of
                   None \<Rightarrow> data
                 | Some decompress \<Rightarrow>
                     (case decompress data of Inl e \<Rightarrow> data | Inr d \<Rightarrow> d)))
   \<and> (\<not> py_in (ustr ''gzip'') ce \<and> \<not> py_in (ustr ''deflate'') ce \<and> \<not> py_in (ustr ''br'') ce \<longrightarrow>
        undo_content_encoding rt ce data = Inr data)
   \<and> (\<exists>shown. decode_for_display rt data headers = Inr shown)"
proof -
  have "\<exists>out. undo_content_encoding rt ce data = Inr out"
    by (rule undo_content_encoding_returns)
  moreover have "py_in (ustr ''gzip'') ce \<longrightarrow>
        undo_content_encoding rt ce data
          = Inr (case gzip_decompress rt data of Inl e \<Rightarrow> data | Inr d \<Rightarrow> d)"
    by (simp add: undo_content_encoding_def try_except_def split: sum.splits)
  moreover have "\<not> py_in (ustr ''gzip'') ce \<and> py_in (ustr ''deflate'') ce \<longrightarrow>
        undo_content_encoding rt ce data
          = Inr (case zlib_decompress rt data of Inl e \<Rightarrow> data | Inr d \<Rightarrow> d)"
    by (simp add: undo_content_encoding_def try_except_def split: sum.splits)
  moreover have "\<not> py_in (ustr ''gzip'') ce \<and> \<not> py_in (ustr ''deflate'') ce
        \<and> py_in (ustr ''br'') ce \<longrightarrow>
        undo_content_encoding rt ce data
          = Inr (case brotli rt of
                   None \<Rightarrow> data
                 | Some decompress \<Rightarrow>
                     (case decompress data of Inl e \<Rightarrow> data | Inr d \<Rightarrow> d))"
    by (simp add: undo_content_encoding_def try_except_def split: sum.splits option.splits)
  moreover have "\<not> py_in (ustr ''gzip'') ce \<and> \<not> py_in (ustr ''deflate'') ce
        \<and> \<not> py_in (ustr ''br'') ce \<longrightarrow> undo_content_encoding rt ce data = Inr data"
    by (simp add: undo_content_encoding_def try_except_def)
  moreover have "\<exists>shown. decode_for_display rt data headers = Inr shown"
    by (rule decode_for_display_returns)
  ultimately show ?thesis by blast
qed

lemma gunzip_hello: "gzip_decompress sample_runtime gz_hello = Inr hello_bytes"
  by (simp add: sample_runtime_def gunzip_table_def gz_hello_def gz_reset_def)

lemma gunzip_plain_fails: "gzip_decompress sample_runtime hello_bytes = Inl DecompressError"
  by (simp add: sample_runtime_def gunzip_table_def gz_hello_def gz_reset_def hello_bytes_def)

lemma br_not_gzip_deflate:
  "\<not> py_in (ustr ''gzip'') (ustr ''br'') \<and> \<not> py_in (ustr ''deflate'') (ustr ''br'')
   \<and> py_in (ustr ''br'') (ustr ''br'')"
  by (simp add: ustr_def)

theorem undo_content_encoding_never_raises_witness:
  "undo_content_encoding sample_runtime (ustr ''gzip'') gz_hello = Inr hello_bytes
   \<and> undo_content_encoding sample_runtime (ustr ''gzip'') hello_bytes = Inr hello_bytes
   \<and> undo_content_encoding sample_runtime (ustr ''br'') hello_bytes = Inr hello_bytes"
proof -
  have a: "undo_content_encoding sample_runtime (ustr ''gzip'') gz_hello = Inr hello_bytes"
    using undo_content_encoding_never_raises [of sample_runtime "ustr ''gzip''" gz_hello]
      gzip_in_gzip gunzip_hello by simp
  have b: "undo_content_encoding sample_runtime (ustr ''gzip'') hello_bytes = Inr hello_bytes"
    using undo_content_encoding_never_raises [of sample_runtime "ustr ''gzip''" hello_bytes]
      gzip_in_gzip gunzip_plain_fails by simp
  have none: "brotli sample_runtime = None" by (simp add: sample_runtime_def)
  have c: "undo_content_encoding sample_runtime (ustr ''br'') hello_bytes = Inr hello_bytes"
    using undo_content_encoding_never_raises [of sample_runtime "ustr ''br''" hello_bytes]
      br_not_gzip_deflate none by simp
  from a b c show ?thesis by blast
qed

text \<open>
  C7. When, in the first 2000 characters of the decoded text, the control characters (code
  point below 32, other than tab, newline and carriage return) plus the replacement
  characters U+FFFD make up more than 0.08 of the sample, the text looks binary and
  \<open>decode_for_display\<close> returns the placeholder, whatever the headers are; without a
  content-type the kind shown is \<open>binary/unknown\<close> (see the witness).
\<close>

theorem control_ratio_gives_placeholder:
  assumes "data \<noteq> []"
      and "get_header_value rt headers (ustr ''content-type'') = Inr ct"
      and "get_header_value rt headers (ustr ''content-encoding'') = Inr ce"
      and "undo_content_encoding rt (str_lower rt ce) data = Inr decoded"
      and "safe_decode rt decoded = (text, issue)"
      and "real (length (filter is_control (take 2000 text)) + count_list (take 2000 text) 65533)
             / real (length (take 2000 text)) > 8 / 100"
  shows "looks_binary_from_text text
         \<and> decode_for_display rt data headers
             = Inr (placeholder (if str_lower rt ct = [] then ustr ''binary/unknown''
                                 else str_lower rt ct) (length data))"
proof -
  have lb: "looks_binary_from_text text"
    using assms(6) by (simp add: looks_binary_ratio)
  show ?thesis
    using decode_for_display_steps [OF assms(1) assms(2) assms(3) assms(4) assms(5)] lb
    by simp
qed

lemma no_header_value: "get_header_value sample_runtime None name = Inr []"
  by (rule get_header_value_None)

lemma undo_identity_control:
  "undo_content_encoding sample_runtime (str_lower sample_runtime []) control_bytes
     = Inr control_bytes"
  by (simp add: empty_lower undo_content_encoding_def try_except_def ustr_def)

lemma decode_control: "safe_decode sample_runtime control_bytes = ([0, 1, 2, 65], False)"
  by (simp add: safe_decode_def sample_runtime_def control_bytes_def utf8_defs)

lemma control_ratio:
  "real (length (filter is_control (take 2000 [0, 1, 2, 65]))
          + count_list (take 2000 [0, 1, 2, 65]) 65533)
     / real (length (take 2000 [0, 1, 2, 65 :: nat])) > 8 / 100"
  by (simp add: is_control_def)

lemma unknown_placeholder_4:
  "placeholder (ustr ''binary/unknown'') 4
     = ustr ''[binary body omitted: binary/unknown; 4 bytes]''"
  unfolding placeholder_def by (simp add: py_str_nat.simps ustr_def)

theorem control_ratio_gives_placeholder_witness:
  "real (length (filter is_control (take 2000 [0, 1, 2, 65]))
          + count_list (take 2000 [0, 1, 2, 65]) 65533)
     / real (length (take 2000 [0, 1, 2, 65 :: nat])) > 8 / 100
   \<and> decode_for_display sample_runtime control_bytes None
       = Inr (ustr ''[binary body omitted: binary/unknown; 4 bytes]'')"
proof -
  have ne: "control_bytes \<noteq> []" by (simp add: control_bytes_def)
  have len: "length control_bytes = 4" by (simp add: control_bytes_def)
  have k: "(if str_lower sample_runtime [] = [] then ustr ''binary/unknown''
            else str_lower sample_runtime []) = ustr ''binary/unknown''"
    by (simp add: empty_lower)
  show ?thesis
    using control_ratio_gives_placeholder
      [OF ne no_header_value no_header_value undo_identity_control decode_control control_ratio]
      control_ratio
    unfolding k len unknown_placeholder_4 by blast
qed

text \<open>
  C8 (amended). When the content-encoding contains \<open>gzip\<close>, the body inflates to bytes that
  decode as UTF-8 without a decode issue to a text, the declared content-type is not binary
  without being textual, and the text does not look binary to the heuristic, then
  \<open>decode_for_display\<close> returns exactly that text.
\<close>

theorem gzip_round_trip_of_plain_text:
  assumes "data \<noteq> []"
      and "get_header_value rt headers (ustr ''content-type'') = Inr ct"
      and "get_header_value rt headers (ustr ''content-encoding'') = Inr ce"
      and "py_in (ustr ''gzip'') (str_lower rt ce)"
      and "gzip_decompress rt data = Inr raw"
      and "safe_decode rt raw = (shown, False)"
      and "\<not> (any_hint BINARY_CONTENT_HINTS (str_lower rt (str_lower rt ct))
              \<and> \<not> any_hint TEXTUAL_CONTENT_HINTS (str_lower rt (str_lower rt ct)))"
      and "\<not> looks_binary_from_text shown"
  shows "decode_for_display rt data headers = Inr shown"
proof -
  have u: "undo_content_encoding rt (str_lower rt ce) data = Inr raw"
    using assms(4) assms(5) by (simp add: undo_content_encoding_def try_except_def)
  show ?thesis
    using decode_for_display_steps [OF assms(1) assms(2) assms(3) u assms(6)]
      assms(7) assms(8)
    by auto
qed

lemma gunzip_reset: "gzip_decompress sample_runtime gz_reset = Inr reset_bytes"
  by (simp add: sample_runtime_def gunzip_table_def)

lemma strict_reset: "utf8_decode sample_runtime reset_bytes = Some [27, 91, 48, 109]"
  by (simp add: sample_runtime_def reset_bytes_def utf8_defs)

text \<open>
  C8 as stated fails for the UTF-8 text ESC [ 0 m (an ANSI reset sequence): one character
  in four is a control character, so its gzip stream is shown as a placeholder.
\<close>

theorem gzip_round_trip_counterexample:
  "gzip_decompress sample_runtime gz_reset = Inr reset_bytes
   \<and> utf8_decode sample_runtime reset_bytes = Some [27, 91, 48, 109]
   \<and> get_header_value sample_runtime gzip_headers (ustr ''content-encoding'') = Inr (ustr ''gzip'')
   \<and> get_header_value sample_runtime gzip_headers (ustr ''content-type'') = Inr []
   \<and> decode_for_display sample_runtime gz_reset gzip_headers
       = Inr (ustr ''[binary body omitted: binary/unknown; 24 bytes]'')
   \<and> decode_for_display sample_runtime gz_reset gzip_headers \<noteq> Inr [27, 91, 48, 109]"
  unfolding gz_reset_display
  by (simp add: gunzip_reset strict_reset gzip_content_encoding gzip_content_type)
     (simp add: ustr_def)

theorem gzip_round_trip_of_plain_text_witness:
  "gzip_decompress sample_runtime gz_hello = Inr hello_bytes
   \<and> safe_decode sample_runtime hello_bytes = (ustr ''hello'', False)
   \<and> decode_for_display sample_runtime gz_hello gzip_headers = Inr (ustr ''hello'')"
proof -
  have ne: "gz_hello \<noteq> []" by (simp add: gz_hello_def)
  have g: "py_in (ustr ''gzip'') (str_lower sample_runtime (ustr ''gzip''))"
    by (simp add: gzip_lower gzip_in_gzip)
  have nb: "\<not> (any_hint BINARY_CONTENT_HINTS
                  (str_lower sample_runtime (str_lower sample_runtime []))
               \<and> \<not> any_hint TEXTUAL_CONTENT_HINTS
                  (str_lower sample_runtime (str_lower sample_runtime [])))"
    by (simp add: empty_lower no_hint_in_empty)
  show ?thesis
    using gzip_round_trip_of_plain_text
      [OF ne gzip_content_type gzip_content_encoding g gunzip_hello decode_hello nb
          hello_not_binary]
      gunzip_hello decode_hello
    by blast
qed

text \<open>
  C9. The header lookup returns the empty string when the collection is \<open>None\<close>, when it is
  empty, and when no field name equals the wanted name after lower-casing both; it returns a
  value for every collection, and \<open>decode_for_display\<close> returns a string when it is given
  \<open>None\<close> as headers.
\<close>

theorem header_lookup_total:
  "get_header_value rt None name = Inr []
   \<and> (header_fields h = [] \<longrightarrow> get_header_value rt (Some h) name = Inr [])
   \<and> ((\<forall>(k, v) \<in> set (header_fields h). str_lower rt k \<noteq> str_lower rt name)
        \<longrightarrow> get_header_value rt (Some h) name = Inr [])
   \<and> (\<exists>v. get_header_value rt headers name = Inr v)
   \<and> (\<exists>shown. decode_for_display rt data None = Inr shown)"
proof -
  have "header_fields h = [] \<longrightarrow> get_header_value rt (Some h) name = Inr []"
    by (simp add: get_header_value_Some)
  moreover have "(\<forall>(k, v) \<in> set (header_fields h). str_lower rt k \<noteq> str_lower rt name)
        \<longrightarrow> get_header_value rt (Some h) name = Inr []"
    by (simp add: get_header_value_Some first_match_no_name)
  ultimately show ?thesis
    using get_header_value_None get_header_value_returns decode_for_display_returns
    by blast
qed

lemma length_headers_no_content_type:
  "\<forall>(k, v) \<in> set (header_fields length_headers).
     str_lower sample_runtime k \<noteq> str_lower sample_runtime (ustr ''content-type'')"
  by (simp add: length_headers_def sample_runtime_def ascii_lower_def ustr_def)

theorem header_lookup_total_witness:
  "get_header_value sample_runtime None (ustr ''content-type'') = Inr []
   \<and> get_header_value sample_runtime (Some length_headers) (ustr ''content-type'') = Inr []
   \<and> get_header_value sample_runtime (Some (Headers [])) (ustr ''content-type'') = Inr []"
  using header_lookup_total [of sample_runtime "ustr ''content-type''" length_headers]
    header_lookup_total [of sample_runtime "ustr ''content-type''" "Headers []"]
    length_headers_no_content_type
  by simp

end
